theory Spec2Isabelle
  imports
    Main
    "HOL-Library.Sublist"
    "HOL-Library.List_Lexorder"
    "HOL-Library.Char_ord"
    "HOL-Library.Word"
begin

section \<open>Data model (notifications.go, lines 12-36)\<close>

text \<open>
  The three structs of the source. Go strings are byte strings: \<^typ>\<open>string\<close>.
  The records share field names, as the structs do; the later declaration owns the
  short name, the earlier ones are written qualified (\<open>Notification.ID\<close>).
\<close>

record Notification =
  ID :: string
  Actor :: string
  Object :: string
  Target :: string
  Updated :: string

record LDNInbox =
  Context :: string
  ID :: string
  Contains :: "string list"

record LDNotification =
  Context :: string
  ID :: string
  Type :: string
  Actor :: string
  Object :: string
  Target :: string
  Updated :: string

text \<open>\<open>Notification{}\<close>, the zero value of the struct: every field the empty string.\<close>

definition Notification_zero :: Notification where
  "Notification_zero =
     \<lparr>Notification.ID = [], Notification.Actor = [], Notification.Object = [],
      Notification.Target = [], Notification.Updated = []\<rparr>"

definition maxResponseSize :: nat where
  "maxResponseSize = 128"

section \<open>Projection layer (lines 114-142)\<close>

type_synonym stringTransform = "string \<Rightarrow> string"

text \<open>
  \<open>mapNotificationsID\<close> allocates \<open>len(ns)\<close> empty strings and overwrites slot \<open>i\<close> in
  the \<open>i\<close>-th round of the \<open>range\<close> loop. The loop is the recursion below; \<open>i\<close> is the
  loop index, the list argument the part of \<open>ns\<close> still to visit. The index is
  always in range, so the list update never falls outside the slice.
\<close>

fun mapNotificationsID_loop ::
  "nat \<Rightarrow> Notification list \<Rightarrow> stringTransform \<Rightarrow> string list \<Rightarrow> string list" where
  "mapNotificationsID_loop i [] transform ids = ids"
| "mapNotificationsID_loop i (n # ns) transform ids =
     mapNotificationsID_loop (Suc i) ns transform (ids[i := transform (Notification.ID n)])"

definition mapNotificationsID :: "Notification list \<Rightarrow> stringTransform \<Rightarrow> string list" where
  "mapNotificationsID ns transform =
     mapNotificationsID_loop 0 ns transform (replicate (length ns) [])"

definition makeLDNInbox :: "string \<Rightarrow> stringTransform \<Rightarrow> Notification list \<Rightarrow> LDNInbox" where
  "makeLDNInbox inboxID makeID ns =
     \<lparr>LDNInbox.Context = ''http://www.w3.org/ns/ldp'',
      LDNInbox.ID = inboxID,
      Contains = mapNotificationsID ns makeID\<rparr>"

definition makeLDNotification :: "stringTransform \<Rightarrow> Notification \<Rightarrow> LDNotification" where
  "makeLDNotification makeID n =
     \<lparr>Context = ''https://www.w3.org/ns/activitystreams'',
      ID = makeID (Notification.ID n),
      Type = ''Announce'',
      Actor = Notification.Actor n,
      Object = Notification.Object n,
      Target = Notification.Target n,
      Updated = Notification.Updated n\<rparr>"

section \<open>Errors and the libraries the code calls\<close>

text \<open>
  Every \<open>error\<close> value the functions can meet. \<open>ErrKeyNotFound\<close> is
  \<open>badger.ErrKeyNotFound\<close>, the answer of \<open>txn.Get\<close> for an absent key;
  \<open>JSONError\<close> is an error of \<open>encoding/json\<close>; \<open>StorageError\<close> is any other refusal
  of the storage engine. \<open>Error\<close> is the \<open>err.Error()\<close> text.
\<close>

datatype error =
    ErrKeyNotFound
  | JSONError string
  | StorageError string

fun Error :: "error \<Rightarrow> string" where
  "Error ErrKeyNotFound = ''Key not found''"
| "Error (JSONError msg) = msg"
| "Error (StorageError msg) = msg"

text \<open>
  \<open>encoding/json\<close> is a library, not code of this repository: the functions take it
  as a parameter, one field for each use the source makes of it.
  \<open>Marshal\<close> and \<open>Unmarshal\<close> are \<open>json.Marshal\<close> and \<open>json.Unmarshal\<close> at type
  \<open>Notification\<close> (into a fresh zero value, as both callers do), \<open>Decode\<close> is
  \<open>json.NewDecoder(r.Body).Decode\<close>, and the two encoders are
  \<open>json.NewEncoder(w).Encode\<close> at the two projected shapes, giving the bytes written.
\<close>

record json =
  Marshal :: "Notification \<Rightarrow> error + string"
  Unmarshal :: "string \<Rightarrow> error + Notification"
  Decode :: "string \<Rightarrow> error + Notification"
  EncodeInbox :: "LDNInbox \<Rightarrow> string"
  EncodeNotification :: "LDNotification \<Rightarrow> string"

text \<open>
  \<open>uuid.New()\<close> yields sixteen bytes; they are an input of the model. \<open>String()\<close>
  prints them in lower-case hexadecimal, in groups of 4, 2, 2, 2 and 6 bytes joined
  by hyphens.
\<close>

type_synonym UUID = "8 word list"

definition hexdigits :: string where
  "hexdigits = ''0123456789abcdef''"

definition encodeHex :: "8 word list \<Rightarrow> string" where
  "encodeHex bs =
     concat (map (\<lambda>b. [hexdigits ! unat (drop_bit 4 b), hexdigits ! unat (and b 0x0f)]) bs)"

definition UUID_String :: "UUID \<Rightarrow> string" where
  "UUID_String u =
     encodeHex (take 4 u) @ ''-'' @ encodeHex (take 2 (drop 4 u)) @ ''-'' @
     encodeHex (take 2 (drop 6 u)) @ ''-'' @ encodeHex (take 2 (drop 8 u)) @ ''-'' @
     encodeHex (take 6 (drop 10 u))"

section \<open>The storage engine\<close>

text \<open>
  The package-level handle \<open>db\<close> is a badger database: byte-string keys mapped to
  byte-string values, iterated in the byte order of the keys. Its state is the
  list of entries in that order, threaded through every function that uses \<open>db\<close>.
  The order on \<^typ>\<open>string\<close> is the lexicographic order on bytes.
\<close>

type_synonym store = "(string \<times> string) list"

text \<open>\<open>txn.Get\<close> followed by \<open>item.Value\<close>: the value under the key, or \<open>ErrKeyNotFound\<close>.\<close>

definition txn_Get :: "string \<Rightarrow> store \<Rightarrow> error + string" where
  "txn_Get key txn = (case map_of txn key of None \<Rightarrow> Inl ErrKeyNotFound | Some v \<Rightarrow> Inr v)"

text \<open>Writing an entry keeps the key order and replaces the value of a key already there.\<close>

fun store_put :: "string \<Rightarrow> string \<Rightarrow> store \<Rightarrow> store" where
  "store_put key val [] = [(key, val)]"
| "store_put key val ((k, v) # es) =
     (if key < k then (key, val) # (k, v) # es
      else if key = k then (key, val) # es
      else (k, v) # store_put key val es)"

text \<open>
  \<open>txn.SetEntry\<close>. The engine may refuse a write (an oversized entry, a full disk, a
  conflict at commit); whether it does is an input, \<open>fault\<close>, and a refused write
  stores nothing.
\<close>

definition txn_SetEntry :: "error option \<Rightarrow> string \<Rightarrow> string \<Rightarrow> store \<Rightarrow> error + store" where
  "txn_SetEntry fault key val txn =
     (case fault of Some err \<Rightarrow> Inl err | None \<Rightarrow> Inr (store_put key val txn))"

text \<open>
  \<open>db.View\<close> runs its function on a read-only snapshot and leaves the database as it
  was; \<open>db.Update\<close> commits what its function wrote unless the function failed.
\<close>

definition db_View :: "(store \<Rightarrow> error + 'a) \<Rightarrow> store \<Rightarrow> (error + 'a) \<times> store" where
  "db_View fn db = (fn db, db)"

definition db_Update :: "(store \<Rightarrow> error + store) \<Rightarrow> store \<Rightarrow> error option \<times> store" where
  "db_Update fn db = (case fn db of Inl err \<Rightarrow> (Some err, db) | Inr db' \<Rightarrow> (None, db'))"

text \<open>
  The iterator is the list of entries from its position on. \<open>Seek\<close> moves to the
  first key not below the given one, \<open>ValidForPrefix\<close> holds while there is an entry
  and its key starts with the prefix, \<open>Next\<close> drops the entry.
\<close>

definition Seek :: "string \<Rightarrow> store \<Rightarrow> store" where
  "Seek key txn = dropWhile (\<lambda>(k, v). k < key) txn"

definition ValidForPrefix :: "string \<Rightarrow> store \<Rightarrow> bool" where
  "ValidForPrefix p it = (case it of [] \<Rightarrow> False | (k, v) # _ \<Rightarrow> prefix p k)"

section \<open>Storage layer (lines 38-112)\<close>

text \<open>
  The \<open>for\<close> loop of \<open>getInbox\<close>, from the iterator's position. The third argument is
  the iterator, the fourth the slice \<open>notifications\<close>. The slice starts with length 0
  and capacity \<open>maxResponseSize\<close>; \<open>append\<close> grows a full slice, so the capacity
  appears nowhere in the loop. A value that does not decode ends the loop with the
  error.
\<close>

fun getInbox_loop :: "json \<Rightarrow> string \<Rightarrow> store \<Rightarrow> Notification list \<Rightarrow> error + Notification list" where
  "getInbox_loop js p [] notifications = Inr notifications"
| "getInbox_loop js p ((k, v) # it) notifications =
     (if ValidForPrefix p ((k, v) # it) then
        (case Unmarshal js v of
           Inl err \<Rightarrow> Inl err
         | Inr notification \<Rightarrow> getInbox_loop js p it (notifications @ [notification]))
      else Inr notifications)"

definition getInbox :: "json \<Rightarrow> string \<Rightarrow> store \<Rightarrow> (error + Notification list) \<times> store" where
  "getInbox js inboxID db =
     db_View (\<lambda>txn. let p = inboxID @ ''-'' in getInbox_loop js p (Seek p txn) []) db"

text \<open>
  The entries the loop above visits when no value fails to decode: those from the
  \<open>Seek\<close> position on, as long as \<open>ValidForPrefix\<close> holds. \<open>getInbox\<close> returns one
  record for each of them, in this order.
\<close>

definition inbox_entries :: "string \<Rightarrow> store \<Rightarrow> store" where
  "inbox_entries inboxID db =
     takeWhile (\<lambda>(k, v). prefix (inboxID @ ''-'') k) (Seek (inboxID @ ''-'') db)"

text \<open>
  \<open>getNotification\<close>. The last \<open>if\<close> of the source returns \<open>Notification{}, nil\<close> when
  the transaction failed: the error is dropped and the zero value is a success.
\<close>

definition getNotification ::
  "json \<Rightarrow> string \<Rightarrow> string \<Rightarrow> store \<Rightarrow> (error + Notification) \<times> store" where
  "getNotification js inboxID notificationID db =
     (case db_View (\<lambda>txn.
               let id = inboxID @ ''-'' @ notificationID in
               case txn_Get id txn of
                 Inl err \<Rightarrow> Inl err
               | Inr v \<Rightarrow> Unmarshal js v) db of
        (Inl err, db') \<Rightarrow> (Inr Notification_zero, db')
      | (Inr notification, db') \<Rightarrow> (Inr notification, db'))"

text \<open>
  \<open>createNotification\<close>. \<open>u\<close> is the value of \<open>uuid.New()\<close>. The last line of the
  source returns \<open>Notification{}, nil\<close>, not the record it stored.
\<close>

definition createNotification ::
  "json \<Rightarrow> error option \<Rightarrow> UUID \<Rightarrow> string \<Rightarrow> Notification \<Rightarrow> store \<Rightarrow>
     (error + Notification) \<times> store" where
  "createNotification js fault u inboxID notification db =
     (let notification = notification\<lparr>Notification.ID := UUID_String u\<rparr> in
      case Marshal js notification of
        Inl err \<Rightarrow> (Inl err, db)
      | Inr n \<Rightarrow>
          (case db_Update (\<lambda>txn.
                    let id = inboxID @ ''-'' @ Notification.ID notification in
                    txn_SetEntry fault id n txn) db of
             (Some err, db') \<Rightarrow> (Inl err, db')
           | (None, db') \<Rightarrow> (Inr Notification_zero, db')))"

section \<open>HTTP handlers (lines 144-210)\<close>

text \<open>
  A request as the handlers read it: method, host, the path variables of
  \<open>mux.Vars\<close> and the body. Indexing a Go map at an absent key gives the empty string.
  A handler's effect on the \<open>ResponseWriter\<close> is the list of calls it makes on it, in
  order; \<open>http_Error w msg code\<close> is one call of \<open>http.Error\<close>, and an \<open>Encode\<close> on the
  writer is a \<open>Write\<close> of the encoded bytes.
\<close>

record Request =
  Method :: string
  Host :: string
  Vars :: "string \<rightharpoonup> string"
  Body :: string

definition map_index :: "(string \<rightharpoonup> string) \<Rightarrow> string \<Rightarrow> string" where
  "map_index m k = (case m k of None \<Rightarrow> [] | Some v \<Rightarrow> v)"

datatype call =
    Header_Set string string
  | WriteHeader nat
  | Write string
  | http_Error string nat

definition handleInbox ::
  "json \<Rightarrow> error option \<Rightarrow> UUID \<Rightarrow> Request \<Rightarrow> store \<Rightarrow> call list \<times> store" where
  "handleInbox js fault u r db =
     (let inboxURN = map_index (Vars r) ''URN'' in
      if Method r = ''POST'' then
        (case Decode js (Body r) of
           Inl err \<Rightarrow> ([http_Error (Error err) 400], db)
         | Inr n \<Rightarrow>
             (case createNotification js fault u inboxURN n db of
                (Inl err, db') \<Rightarrow> ([http_Error (Error err) 400], db')
              | (Inr notification, db') \<Rightarrow>
                  ([Header_Set ''content-type'' ''application/ld+json'',
                    Header_Set ''location''
                      (''http://'' @ Host r @ ''/texts/'' @ inboxURN @ ''/inbox/'' @
                       Notification.ID notification),
                    WriteHeader 201], db')))
      else if Method r = ''GET'' then
        (case getInbox js inboxURN db of
           (Inl err, db') \<Rightarrow> ([http_Error (Error err) 400], db')
         | (Inr notifications, db') \<Rightarrow>
             (let inboxID = ''http://'' @ Host r @ ''/texts/'' @ inboxURN @ ''/inbox'';
                  inbox = makeLDNInbox inboxID (\<lambda>id. inboxID @ ''/'' @ id) notifications
              in ([Header_Set ''content-type'' ''application/ld+json'',
                   Write (EncodeInbox js inbox)], db')))
      else ([http_Error ''Not Found'' 404], db))"

text \<open>
  \<open>handleNotification\<close>. The first \<open>if\<close> has no \<open>return\<close>: its two calls on the writer
  come first and the rest of the function runs after them.
\<close>

definition handleNotification :: "json \<Rightarrow> Request \<Rightarrow> store \<Rightarrow> call list \<times> store" where
  "handleNotification js r db =
     (let inboxURN = map_index (Vars r) ''URN'';
          notificationID = map_index (Vars r) ''ID'';
          w = (if Method r \<noteq> ''GET'' then [WriteHeader 404, Write ''Not Found''] else [])
      in case getNotification js inboxURN notificationID db of
           (Inl err, db') \<Rightarrow> (w @ [http_Error ''Internal Server Error'' 500], db')
         | (Inr notification, db') \<Rightarrow>
             (let n = makeLDNotification
                        (\<lambda>id. ''http://'' @ Host r @ ''/texts/'' @ inboxURN @ ''/inbox/'' @ id)
                        notification
              in (w @ [Header_Set ''content-type'' ''application/ld+json'',
                       Write (EncodeNotification js n)], db')))"

section \<open>Instances of the JSON library\<close>

text \<open>
  To run the model on examples the \<open>json\<close> parameter needs a value. \<open>std_json\<close> is
  the smaller of two: it prints the structs with the field tags of the source,
  escapes only the quote and the backslash, and reads back exactly what it printed.
  It agrees with \<open>encoding/json\<close> on records whose strings are printable ASCII
  without \<open><\<close>, \<open>>\<close> and \<open>&\<close>, which is all it is used for.
\<close>

definition json_escape :: "char \<Rightarrow> string" where
  "json_escape c = (if c = CHR 0x22 \<or> c = CHR 0x5C then [CHR 0x5C, c] else [c])"

definition json_string :: "string \<Rightarrow> string" where
  "json_string s = CHR 0x22 # concat (map json_escape s) @ [CHR 0x22]"

fun scan_string :: "string \<Rightarrow> (string \<times> string) option" where
  "scan_string [] = None"
| "scan_string (c # cs) =
     (if c = CHR 0x22 then Some ([], cs)
      else if c = CHR 0x5C then
        (case cs of
           [] \<Rightarrow> None
         | d # ds \<Rightarrow> map_option (\<lambda>(s, rest). (d # s, rest)) (scan_string ds))
      else map_option (\<lambda>(s, rest). (c # s, rest)) (scan_string cs))"

definition read_field :: "string \<Rightarrow> string \<Rightarrow> (string \<times> string) option" where
  "read_field label s =
     (if prefix label s then scan_string (drop (length label) s) else None)"

definition std_Marshal :: "Notification \<Rightarrow> error + string" where
  \<open>std_Marshal n = Inr
     (''{"id":'' @ json_string (Notification.ID n) @
      '',"actor":'' @ json_string (Notification.Actor n) @
      '',"object":'' @ json_string (Notification.Object n) @
      '',"target":'' @ json_string (Notification.Target n) @
      '',"updated":'' @ json_string (Notification.Updated n) @ ''}'')\<close>

definition std_Unmarshal :: "string \<Rightarrow> error + Notification" where
  \<open>std_Unmarshal v =
     (case
        Option.bind (read_field ''{"id":"'' v) (\<lambda>(i, v).
        Option.bind (read_field '',"actor":"'' v) (\<lambda>(a, v).
        Option.bind (read_field '',"object":"'' v) (\<lambda>(ob, v).
        Option.bind (read_field '',"target":"'' v) (\<lambda>(t, v).
        Option.bind (read_field '',"updated":"'' v) (\<lambda>(up, v).
          if v = ''}'' then
            Some \<lparr>Notification.ID = i, Notification.Actor = a, Notification.Object = ob,
                  Notification.Target = t, Notification.Updated = up\<rparr>
          else None)))))
      of None \<Rightarrow> Inl (JSONError ''invalid JSON'') | Some n \<Rightarrow> Inr n)\<close>

fun join_comma :: "string list \<Rightarrow> string" where
  "join_comma [] = []"
| "join_comma [x] = x"
| "join_comma (x # y # xs) = x @ '','' @ join_comma (y # xs)"

definition std_EncodeInbox :: "LDNInbox \<Rightarrow> string" where
  \<open>std_EncodeInbox x =
     ''{"@context":'' @ json_string (LDNInbox.Context x) @
     '',"@id":'' @ json_string (LDNInbox.ID x) @
     '',"contains":['' @ join_comma (map json_string (Contains x)) @ '']}'' @ [CHR 0x0A]\<close>

definition std_EncodeNotification :: "LDNotification \<Rightarrow> string" where
  \<open>std_EncodeNotification x =
     ''{"@context":'' @ json_string (Context x) @
     '',"@id":'' @ json_string (ID x) @
     '',"@type":'' @ json_string (Type x) @
     '',"actor":'' @ json_string (Actor x) @
     '',"object":'' @ json_string (Object x) @
     '',"target":'' @ json_string (Target x) @
     '',"updated":'' @ json_string (Updated x) @ ''}'' @ [CHR 0x0A]\<close>

definition std_json :: json where
  "std_json =
     \<lparr>Marshal = std_Marshal, Unmarshal = std_Unmarshal, Decode = std_Unmarshal,
      EncodeInbox = std_EncodeInbox, EncodeNotification = std_EncodeNotification\<rparr>"


















section \<open>Example inputs\<close>

text \<open>
  The notification of the specification's end-to-end scenario (with an \<open>id\<close> sent by the
  client, which \<open>createNotification\<close> overwrites), UUIDs of version 4 that differ in
  their first byte, and the database after \<open>N\<close> notifications were created in the
  inbox \<open>work1\<close>.
\<close>

definition sample_notification :: Notification where
  "sample_notification =
     \<lparr>Notification.ID = ''from-the-client'', Notification.Actor = ''u1'', Notification.Object = ''o1'',
      Notification.Target = ''t1'', Notification.Updated = ''2024-01-01''\<rparr>"

definition numbered_uuid :: "nat \<Rightarrow> UUID" where
  "numbered_uuid i = [of_nat i, 0, 0, 0, 0, 0, 0x40, 0, 0x80, 0, 0, 0, 0, 0, 0, 0]"

definition filled_store :: "nat \<Rightarrow> store" where
  "filled_store N =
     fold (\<lambda>i db. snd (createNotification std_json None (numbered_uuid i) ''work1'' sample_notification db))
       [0..<N] []"

text \<open>
  One more UUID of version 4, a \<open>POST\<close> of the scenario's notification to the inbox
  \<open>work1\<close>, and a \<open>DELETE\<close> on the path of a single notification.
\<close>

definition sample_uuid :: UUID where
  "sample_uuid =
     [0x3f, 0x1c, 0x2a, 0x9b, 0x77, 0x05, 0x4e, 0x61, 0x8d, 0x02, 0xc4, 0x10, 0x5a, 0xe9, 0x6b, 0xf0]"

definition post_request :: Request where
  \<open>post_request =
     \<lparr>Method = ''POST'', Host = ''example.org'', Vars = [''URN'' \<mapsto> ''work1''],
      Body = ''{"id":"from-the-client","actor":"u1","object":"o1","target":"t1","updated":"2024-01-01"}''\<rparr>\<close>

definition delete_request :: Request where
  "delete_request =
     \<lparr>Method = ''DELETE'', Host = ''example.org'',
      Vars = [''URN'' \<mapsto> ''work1'', ''ID'' \<mapsto> ''3f1c2a9b-7705-4e61-8d02-c4105ae96bf0''],
      Body = []\<rparr>"


section \<open>Properties of the projection layer\<close>

lemma mapNotificationsID_loop_eq:
  "i + length ns = length ids \<Longrightarrow>
   mapNotificationsID_loop i ns transform ids =
     take i ids @ map (\<lambda>n. transform (Notification.ID n)) ns"
proof (induction ns arbitrary: i ids)
  case Nil
  then show ?case by simp
next
  case (Cons n ns)
  let ?ids = "ids[i := transform (Notification.ID n)]"
  from Cons.prems have i: "i < length ids" by simp
  from Cons.prems have "Suc i + length ns = length ?ids" by simp
  then have "mapNotificationsID_loop (Suc i) ns transform ?ids =
      take (Suc i) ?ids @ map (\<lambda>n. transform (Notification.ID n)) ns"
    by (rule Cons.IH)
  moreover from i have "take (Suc i) ?ids = take i ids @ [transform (Notification.ID n)]"
    by (simp add: take_Suc_conv_app_nth)
  ultimately show ?case by simp
qed

lemma mapNotificationsID_map:
  "mapNotificationsID ns transform = map (\<lambda>n. transform (Notification.ID n)) ns"
  by (simp add: mapNotificationsID_def mapNotificationsID_loop_eq)

text \<open>
  Claim C6. For every self URI, every mapping function and every sequence of
  notifications, duplicates included, \<open>makeLDNInbox\<close> yields a container whose
  \<open>Contains\<close> list is the notifications' IDs sent through the function, one per input
  element and in the input's order (so of the input's length), whose \<open>@context\<close> is
  \<open>http://www.w3.org/ns/ldp\<close> and whose \<open>@id\<close> is the self URI. The function is a HOL
  function of its three arguments: it reads and writes nothing else.
\<close>

theorem makeLDNInbox_contains_in_order:
  "Contains (makeLDNInbox selfURI makeID ns) = map (\<lambda>n. makeID (Notification.ID n)) ns
   \<and> length (Contains (makeLDNInbox selfURI makeID ns)) = length ns
   \<and> LDNInbox.Context (makeLDNInbox selfURI makeID ns) = ''http://www.w3.org/ns/ldp''
   \<and> LDNInbox.ID (makeLDNInbox selfURI makeID ns) = selfURI"
  by (simp add: makeLDNInbox_def mapNotificationsID_map)

text \<open>
  Claim C7. For every mapping function and every notification, whatever its fields
  hold, \<open>makeLDNotification\<close> yields a member resource with \<open>@context\<close>
  \<open>https://www.w3.org/ns/activitystreams\<close>, \<open>@type\<close> \<open>Announce\<close>, \<open>@id\<close> the mapping
  applied to the notification's id, and actor, object, target and updated equal to
  the input's. No field is inspected, so nothing is validated, and the input is a
  value, so nothing is mutated.
\<close>

theorem makeLDNotification_fields:
  "Context (makeLDNotification makeID n) = ''https://www.w3.org/ns/activitystreams''
   \<and> Type (makeLDNotification makeID n) = ''Announce''
   \<and> ID (makeLDNotification makeID n) = makeID (Notification.ID n)
   \<and> Actor (makeLDNotification makeID n) = Notification.Actor n
   \<and> Object (makeLDNotification makeID n) = Notification.Object n
   \<and> Target (makeLDNotification makeID n) = Notification.Target n
   \<and> Updated (makeLDNotification makeID n) = Notification.Updated n"
  by (simp add: makeLDNotification_def)

section \<open>Properties of the JSON instance\<close>

lemma scan_string_escape:
  "scan_string (concat (map json_escape s) @ CHR 0x22 # rest) = Some (s, rest)"
  by (induction s) (simp_all add: json_escape_def)

lemma read_field_json_string:
  "read_field (label @ [CHR 0x22]) (label @ json_string s @ rest) = Some (s, rest)"
  using scan_string_escape [of s rest] by (simp add: read_field_def json_string_def)

lemma std_roundtrip: "std_Marshal n = Inr b \<Longrightarrow> std_Unmarshal b = Inr n"
  using read_field_json_string [of \<open>''{"id":''\<close>] read_field_json_string [of \<open>'',"actor":''\<close>]
    read_field_json_string [of \<open>'',"object":''\<close>] read_field_json_string [of \<open>'',"target":''\<close>]
    read_field_json_string [of \<open>'',"updated":''\<close>]
  by (auto simp add: std_Marshal_def std_Unmarshal_def)









section \<open>Hexadecimal printing of a byte\<close>

lemma hi_nat: "unat (drop_bit 4 (b :: 8 word)) = unat b div 16"
  by (simp add: drop_bit_eq_div unat_div)

lemma lo_nat: "unat (and (b :: 8 word) 0x0f) = unat b mod 16"
proof -
  have "and b 0x0f = take_bit 4 b"
    using take_bit_eq_mask [of 4 b] by (simp add: mask_eq_exp_minus_1)
  then show ?thesis by (simp add: take_bit_eq_mod unat_mod)
qed

lemma unat8: "unat (b :: 8 word) < 256"
  using unsigned_less [of b] by simp

lemma hexdigits_inj: "i < 16 \<Longrightarrow> j < 16 \<Longrightarrow> hexdigits ! i = hexdigits ! j \<Longrightarrow> i = j"
proof -
  have "distinct hexdigits" by (simp add: hexdigits_def)
  moreover have "length hexdigits = 16" by (simp add: hexdigits_def)
  ultimately show "i < 16 \<Longrightarrow> j < 16 \<Longrightarrow> hexdigits ! i = hexdigits ! j \<Longrightarrow> i = j"
    by (simp add: nth_eq_iff_index_eq)
qed

lemma encodeHex_byte_inj: "encodeHex [a] = encodeHex [b] \<Longrightarrow> a = b"
proof -
  assume "encodeHex [a] = encodeHex [b]"
  then have hi: "hexdigits ! (unat a div 16) = hexdigits ! (unat b div 16)"
    and lo: "hexdigits ! (unat a mod 16) = hexdigits ! (unat b mod 16)"
    by (simp_all add: encodeHex_def hi_nat lo_nat)
  have "unat a div 16 < 16" "unat b div 16 < 16"
    using unat8 [of a] unat8 [of b] by simp_all
  with hi have d: "unat a div 16 = unat b div 16" by (rule hexdigits_inj [rotated 2])
  have "unat a mod 16 < 16" "unat b mod 16 < 16" by simp_all
  with lo have m: "unat a mod 16 = unat b mod 16" by (rule hexdigits_inj [rotated 2])
  have "unat a = 16 * (unat a div 16) + unat a mod 16" by simp
  also have "\<dots> = 16 * (unat b div 16) + unat b mod 16" using d m by simp
  also have "\<dots> = unat b" by simp
  finally show "a = b" by (simp add: word_unat_eq_iff)
qed

lemma of_nat_inj8: "i < 256 \<Longrightarrow> j < 256 \<Longrightarrow> (of_nat i :: 8 word) = of_nat j \<Longrightarrow> i = j"
proof -
  assume i: "i < 256" and j: "j < 256" and eq: "(of_nat i :: 8 word) = of_nat j"
  from i have "unat (of_nat i :: 8 word) = i" by (simp add: unat_of_nat)
  moreover from j have "unat (of_nat j :: 8 word) = j" by (simp add: unat_of_nat)
  ultimately show "i = j" using eq by metis
qed

section \<open>Properties of the storage engine and the storage layer\<close>

lemma map_of_store_put: "map_of (store_put key val es) = (map_of es)(key \<mapsto> val)"
  by (induction es) (auto simp add: fun_eq_iff)

lemma txn_Get_store_put:
  "txn_Get k (store_put key val es) = (if k = key then Inr val else txn_Get k es)"
  by (simp add: txn_Get_def map_of_store_put)

lemma prefix_not_less: "prefix p k \<Longrightarrow> \<not> k < (p :: string)"
  by (induction p arbitrary: k) (auto simp add: prefix_def)

lemma getNotification_never_fails: "\<exists>n. fst (getNotification js inboxID nid db) = Inr n"
  by (auto simp add: getNotification_def db_View_def Let_def split: sum.splits)

lemma getNotification_store: "snd (getNotification js inboxID nid db) = db"
  by (auto simp add: getNotification_def db_View_def Let_def split: sum.splits)

lemma getInbox_store: "snd (getInbox js inboxID db) = db"
  by (simp add: getInbox_def db_View_def)

lemma getInbox_loop_entries:
  "getInbox_loop js p it acc = Inr ns \<Longrightarrow>
   \<exists>ms. ns = acc @ ms \<and>
     list_all2 (\<lambda>n e. Unmarshal js (snd e) = Inr n) ms (takeWhile (\<lambda>e. prefix p (fst e)) it)"
proof (induction it arbitrary: acc)
  case Nil
  then show ?case by simp
next
  case (Cons e it)
  obtain k v where e: "e = (k, v)" by (cases e)
  show ?case
  proof (cases "prefix p k")
    case False
    with Cons.prems e show ?thesis by (simp add: ValidForPrefix_def)
  next
    case True
    with Cons.prems e obtain n where n: "Unmarshal js v = Inr n"
      and loop: "getInbox_loop js p it (acc @ [n]) = Inr ns"
      by (auto simp add: ValidForPrefix_def split: sum.splits)
    from Cons.IH [OF loop] obtain ms where "ns = (acc @ [n]) @ ms"
      and "list_all2 (\<lambda>n e. Unmarshal js (snd e) = Inr n) ms (takeWhile (\<lambda>e. prefix p (fst e)) it)"
      by blast
    with True e n show ?thesis by (intro exI [of _ "n # ms"]) simp
  qed
qed

lemma getInbox_loop_decoded:
  "\<forall>e \<in> set (takeWhile (\<lambda>e. prefix p (fst e)) it). Unmarshal js (snd e) = Inr (dec (snd e)) \<Longrightarrow>
   getInbox_loop js p it acc = Inr (acc @ map (\<lambda>e. dec (snd e)) (takeWhile (\<lambda>e. prefix p (fst e)) it))"
proof (induction it arbitrary: acc)
  case Nil
  then show ?case by simp
next
  case (Cons e it)
  obtain k v where e: "e = (k, v)" by (cases e)
  show ?case
  proof (cases "prefix p k")
    case False
    with e show ?thesis by (simp add: ValidForPrefix_def)
  next
    case True
    with Cons.prems e have v: "Unmarshal js v = Inr (dec v)" by simp
    from Cons.prems e True
    have "\<forall>e \<in> set (takeWhile (\<lambda>e. prefix p (fst e)) it). Unmarshal js (snd e) = Inr (dec (snd e))"
      by simp
    from Cons.IH [OF this, of "acc @ [dec v]"] True e v show ?thesis
      by (simp add: ValidForPrefix_def)
  qed
qed

lemma createNotification_stored:
  "Marshal js (n\<lparr>Notification.ID := UUID_String u\<rparr>) = Inr b \<Longrightarrow>
   createNotification js None u inboxID n db =
     (Inr Notification_zero, store_put (inboxID @ ''-'' @ UUID_String u) b db)"
  by (simp add: createNotification_def db_Update_def txn_SetEntry_def Let_def)

lemma keys_store_put: "fst ` set (store_put key val es) = insert key (fst ` set es)"
proof (induction es)
  case Nil
  show ?case by simp
next
  case (Cons e es)
  obtain k v where e: "e = (k, v)" by (cases e)
  show ?case
    unfolding e using Cons.IH
    by (cases "key < k"; cases "key = k") (simp_all add: insert_commute)
qed

lemma set_store_put: "set (store_put key val es) \<subseteq> insert (key, val) (set es)"
  by (induction es) (auto split: if_splits)

lemma length_store_put:
  "key \<notin> fst ` set es \<Longrightarrow> length (store_put key val es) = Suc (length es)"
  by (induction es) auto

lemma numbered_uuid_inj:
  assumes "i < 256" "j < 256" "UUID_String (numbered_uuid i) = UUID_String (numbered_uuid j)"
  shows "i = j"
proof -
  from assms(3) have "encodeHex [of_nat i] = encodeHex [of_nat j]"
    by (simp add: UUID_String_def numbered_uuid_def encodeHex_def)
  then have "(of_nat i :: 8 word) = of_nat j" by (rule encodeHex_byte_inj)
  with assms(1,2) show ?thesis by (rule of_nat_inj8)
qed

lemma std_Marshal_Inr: "std_Marshal n = Inr (projr (std_Marshal n))"
  by (simp add: std_Marshal_def)

lemma filled_store_Suc:
  "filled_store (Suc N) =
     store_put (''work1-'' @ UUID_String (numbered_uuid N))
       (projr (std_Marshal (sample_notification\<lparr>Notification.ID := UUID_String (numbered_uuid N)\<rparr>)))
       (filled_store N)"
proof -
  have m: "Marshal std_json (sample_notification\<lparr>Notification.ID := UUID_String (numbered_uuid N)\<rparr>) =
      Inr (projr (std_Marshal (sample_notification\<lparr>Notification.ID := UUID_String (numbered_uuid N)\<rparr>)))"
    by (simp add: std_json_def std_Marshal_def)
  show ?thesis
    unfolding filled_store_def
    by (simp add: createNotification_stored [OF m])
qed

lemma filled_store_keys:
  "fst ` set (filled_store N) = (\<lambda>i. ''work1-'' @ UUID_String (numbered_uuid i)) ` {..<N}"
proof (induction N)
  case 0
  show ?case by (simp add: filled_store_def)
next
  case (Suc N)
  show ?case
    unfolding filled_store_Suc keys_store_put Suc.IH
    by (simp add: lessThan_Suc)
qed

lemma filled_store_length: "N \<le> 256 \<Longrightarrow> length (filled_store N) = N"
proof (induction N)
  case 0
  show ?case by (simp add: filled_store_def)
next
  case (Suc N)
  then have N: "N < 256" and len: "length (filled_store N) = N" by simp_all
  have "''work1-'' @ UUID_String (numbered_uuid N) \<notin> fst ` set (filled_store N)"
  proof
    assume "''work1-'' @ UUID_String (numbered_uuid N) \<in> fst ` set (filled_store N)"
    then obtain i where "i < N"
      and "UUID_String (numbered_uuid N) = UUID_String (numbered_uuid i)"
      unfolding filled_store_keys by auto
    with N have "N = i" by (intro numbered_uuid_inj) simp_all
    with \<open>i < N\<close> show False by simp
  qed
  then show ?case
    unfolding filled_store_Suc by (simp add: length_store_put len)
qed

lemma filled_store_values:
  "(k, v) \<in> set (filled_store N) \<Longrightarrow> \<exists>m. std_Marshal m = Inr v"
proof (induction N)
  case 0
  then show ?case by (simp add: filled_store_def)
next
  case (Suc N)
  from Suc.prems set_store_put
  have "(k, v) = (''work1-'' @ UUID_String (numbered_uuid N),
       projr (std_Marshal (sample_notification\<lparr>Notification.ID := UUID_String (numbered_uuid N)\<rparr>)))
     \<or> (k, v) \<in> set (filled_store N)"
    unfolding filled_store_Suc by blast
  then show ?case
  proof
    assume "(k, v) \<in> set (filled_store N)"
    then show ?thesis by (rule Suc.IH)
  next
    assume "(k, v) = (''work1-'' @ UUID_String (numbered_uuid N),
       projr (std_Marshal (sample_notification\<lparr>Notification.ID := UUID_String (numbered_uuid N)\<rparr>)))"
    then have "std_Marshal (sample_notification\<lparr>Notification.ID := UUID_String (numbered_uuid N)\<rparr>) = Inr v"
      using std_Marshal_Inr by simp
    then show ?thesis ..
  qed
qed

lemma Seek_all_prefixed:
  "\<forall>e \<in> set db. prefix p (fst e) \<Longrightarrow> Seek p db = db"
proof -
  assume "\<forall>e \<in> set db. prefix p (fst e)"
  then have "\<forall>e \<in> set db. \<not> (case e of (k, v) \<Rightarrow> k < p)"
    using prefix_not_less by fastforce
  then show ?thesis
    unfolding Seek_def by (cases db) (auto simp add: dropWhile_eq_Cons_conv)
qed

lemma getInbox_whole_store:
  assumes keys: "\<forall>e \<in> set db. prefix (inboxID @ ''-'') (fst e)"
    and vals: "\<forall>e \<in> set db. \<exists>m. Unmarshal js (snd e) = Inr m"
  shows "map_sum id length (fst (getInbox js inboxID db)) = Inr (length db)"
proof -
  let ?p = "inboxID @ ''-''"
  let ?dec = "\<lambda>v. projr (Unmarshal js v)"
  from keys have t: "takeWhile (\<lambda>e. prefix ?p (fst e)) db = db" by (simp add: takeWhile_eq_all_conv)
  from vals have "\<forall>e \<in> set (takeWhile (\<lambda>e. prefix ?p (fst e)) db).
      Unmarshal js (snd e) = Inr (?dec (snd e))"
    unfolding t by auto
  then have "getInbox_loop js ?p db [] = Inr ([] @ map (\<lambda>e. ?dec (snd e)) (takeWhile (\<lambda>e. prefix ?p (fst e)) db))"
    by (rule getInbox_loop_decoded)
  then have "getInbox_loop js ?p db [] = Inr (map (\<lambda>e. ?dec (snd e)) db)"
    unfolding t by simp
  with Seek_all_prefixed [OF keys] show ?thesis
    by (simp add: getInbox_def db_View_def Let_def)
qed

section \<open>The claims about the storage layer and the handlers\<close>

subsection \<open>Facts used below\<close>

lemma UUID_String_sample: "UUID_String sample_uuid = ''3f1c2a9b-7705-4e61-8d02-c4105ae96bf0''"
  by (simp add: UUID_String_def sample_uuid_def encodeHex_def hexdigits_def)


lemma std_Unmarshal_Marshal: "Unmarshal std_json (projr (std_Marshal n)) = Inr n"
  using std_roundtrip [OF std_Marshal_Inr] by (simp add: std_json_def)

lemma createNotification_std:
  "createNotification std_json None u inboxID n db =
     (Inr Notification_zero,
      store_put (inboxID @ ''-'' @ UUID_String u)
        (projr (std_Marshal (n\<lparr>Notification.ID := UUID_String u\<rparr>))) db)"
proof -
  have "Marshal std_json (n\<lparr>Notification.ID := UUID_String u\<rparr>) =
      Inr (projr (std_Marshal (n\<lparr>Notification.ID := UUID_String u\<rparr>)))"
    using std_Marshal_Inr by (simp add: std_json_def)
  then show ?thesis by (rule createNotification_stored)
qed

lemma getInbox_single_extension:
  assumes "Unmarshal js b = Inr n"
  shows "fst (getInbox js A [(A @ ''-'' @ rest, b)]) = Inr [n]"
proof -
  have "prefix (A @ ''-'') (A @ ''-'' @ rest)" by simp
  then have "\<not> A @ ''-'' @ rest < A @ ''-''" by (rule prefix_not_less)
  with assms show ?thesis
    by (simp add: getInbox_def db_View_def Seek_def ValidForPrefix_def Let_def)
qed

lemma UUID_String_numbered_0:
  "UUID_String (numbered_uuid 0) = ''00000000-0000-4000-8000-000000000000''"
  by (simp add: UUID_String_def numbered_uuid_def encodeHex_def hexdigits_def)

lemma filled_store_1:
  "filled_store 1 =
     [(''work1-00000000-0000-4000-8000-000000000000'',
       projr (std_Marshal
         (sample_notification\<lparr>Notification.ID := ''00000000-0000-4000-8000-000000000000''\<rparr>)))]"
  using filled_store_Suc [of 0] by (simp add: filled_store_def UUID_String_numbered_0)

lemma inbox_entries_keys:
  "(k, v) \<in> set (inbox_entries inboxID db) \<Longrightarrow> prefix (inboxID @ ''-'') k"
  unfolding inbox_entries_def by (auto dest: set_takeWhileD)

lemma getInbox_entries:
  assumes "fst (getInbox js inboxID db) = Inr ns"
  shows "list_all2 (\<lambda>n e. Unmarshal js (snd e) = Inr n) ns (inbox_entries inboxID db)"
proof -
  from assms have "getInbox_loop js (inboxID @ ''-'') (Seek (inboxID @ ''-'') db) [] = Inr ns"
    by (simp add: getInbox_def db_View_def Let_def)
  from getInbox_loop_entries [OF this] show ?thesis
    by (simp add: inbox_entries_def case_prod_unfold)
qed

lemma no_common_extension:
  assumes "strict_prefix A B" and "B ! length A \<noteq> c" and "prefix (A @ [c]) k"
  shows "\<not> prefix (B @ [c]) k"
proof
  assume "prefix (B @ [c]) k"
  then have B: "prefix B k" by (rule append_prefixD)
  from assms(1) have len: "length A < length B"
    by (metis prefix_length_less)
  from assms(3) have "k ! length A = c" and "length A < length k"
    by (auto simp add: prefix_def nth_append)
  moreover from B len have "k ! length A = B ! length A"
    by (auto simp add: prefix_def nth_append)
  ultimately show False using assms(2) by simp
qed

subsection \<open>Lookup of a single notification\<close>

text \<open>
  Claim C1. The claim: for every pair \<open>(inboxID, notificationID)\<close> with no record under
  the composite key, \<open>getNotification\<close> fails with a not-found error that the caller can
  tell from a storage failure, and never reports success with empty data. The code at
  such an input: on the empty database \<open>txn.Get\<close> answers \<open>ErrKeyNotFound\<close>, and
  \<open>getNotification\<close> returns the zero notification with no error. A stored value that
  does not decode gives the very same result, so the two failures are not told apart
  either.
\<close>

theorem getNotification_absent_key_is_success:
  "txn_Get ''work1-3f1c2a9b-7705-4e61-8d02-c4105ae96bf0'' [] = Inl ErrKeyNotFound
   \<and> getNotification std_json ''work1'' ''3f1c2a9b-7705-4e61-8d02-c4105ae96bf0'' [] =
       (Inr Notification_zero, [])
   \<and> getNotification std_json ''work1'' ''x'' [(''work1-x'', ''not JSON'')] =
       (Inr Notification_zero, [(''work1-x'', ''not JSON'')])"
  by (simp add: getNotification_def db_View_def txn_Get_def std_json_def std_Unmarshal_def
      read_field_def)

subsection \<open>Creation\<close>

text \<open>
  Claim C2. The claim: the value a successful \<open>createNotification\<close> returns carries the
  generated identifier, so that the \<open>Location\<close> header ends in
  \<open>/texts/<inboxID>/inbox/<generated-id>\<close>. The code at the scenario's input: the record
  is stored under \<open>work1-3f1c2a9b-...\<close>, the returned notification is the zero value, and
  the \<open>location\<close> header that \<open>handleInbox\<close> builds from it ends in \<open>/inbox/\<close>, with
  no identifier.
\<close>

theorem createNotification_returns_zero_value:
  "fst (createNotification std_json None sample_uuid ''work1'' sample_notification []) =
     Inr Notification_zero
   \<and> map fst (snd (createNotification std_json None sample_uuid ''work1'' sample_notification [])) =
     [''work1-3f1c2a9b-7705-4e61-8d02-c4105ae96bf0'']
   \<and> fst (handleInbox std_json None sample_uuid post_request []) =
     [Header_Set ''content-type'' ''application/ld+json'',
      Header_Set ''location'' ''http://example.org/texts/work1/inbox/'',
      WriteHeader 201]"
proof -
  have m: "Marshal std_json (n\<lparr>Notification.ID := UUID_String sample_uuid\<rparr>) =
      Inr (projr (std_Marshal (n\<lparr>Notification.ID := UUID_String sample_uuid\<rparr>)))" for n
    using std_Marshal_Inr by (simp add: std_json_def)
  have d: "Decode std_json (Body post_request) = Inr sample_notification"
    by (simp add: std_json_def post_request_def std_Unmarshal_def read_field_def
        sample_notification_def)
  have r: "Method post_request = ''POST''" "Host post_request = ''example.org''"
    "map_index (Vars post_request) ''URN'' = ''work1''"
    by (simp_all add: post_request_def map_index_def)
  show ?thesis
    by (simp add: handleInbox_def d r createNotification_stored [OF m] UUID_String_sample
        Notification_zero_def Let_def)
qed




subsection \<open>Listing an inbox\<close>

text \<open>
  Claim C3. The claim: an inbox holding more than \<open>maxResponseSize = 128\<close> notifications
  is listed as exactly 128 records. The code after 129 notifications were created in
  the inbox \<open>work1\<close>: the database holds 129 entries and \<open>getInbox\<close> returns 129
  records.
\<close>

theorem getInbox_exceeds_maxResponseSize: "map_sum id length (fst (getInbox std_json ''work1'' (filled_store 129))) = Inr 129
   \<and> length (filled_store 129) = 129 \<and> maxResponseSize = 128"
proof -
  have len: "length (filled_store 129) = 129" by (rule filled_store_length) simp
  have keys: "\<forall>e \<in> set (filled_store 129). prefix (''work1'' @ ''-'') (fst e)"
  proof
    fix e assume "e \<in> set (filled_store 129)"
    then have "fst e \<in> fst ` set (filled_store 129)" by (rule imageI)
    then show "prefix (''work1'' @ ''-'') (fst e)"
      unfolding filled_store_keys by (auto simp add: prefix_def)
  qed
  have vals: "\<forall>e \<in> set (filled_store 129). \<exists>m. Unmarshal std_json (snd e) = Inr m"
  proof
    fix e assume e: "e \<in> set (filled_store 129)"
    obtain k v where kv: "e = (k, v)" by (cases e)
    with e obtain m where "std_Marshal m = Inr v" using filled_store_values by blast
    then have "std_Unmarshal v = Inr m" by (rule std_roundtrip)
    with kv show "\<exists>m. Unmarshal std_json (snd e) = Inr m" by (simp add: std_json_def)
  qed
  from getInbox_whole_store [OF keys vals] len show ?thesis
    by (simp add: maxResponseSize_def)
qed

text \<open>
  Claim C4, as stated, fails: \<open>work1\<close> is a strict prefix of \<open>work1-draft\<close>, and after
  one notification was created in the inbox \<open>work1-draft\<close> the listing of \<open>work1\<close>
  returns it.
\<close>

theorem getInbox_returns_longer_inbox_counterexample:
  "strict_prefix ''work1'' ''work1-draft''
   \<and> map fst (snd (createNotification std_json None sample_uuid ''work1-draft''
                     sample_notification [])) =
       [''work1-draft-3f1c2a9b-7705-4e61-8d02-c4105ae96bf0'']
   \<and> fst (getInbox std_json ''work1''
            (snd (createNotification std_json None sample_uuid ''work1-draft''
                    sample_notification []))) =
       Inr [\<lparr>Notification.ID = ''3f1c2a9b-7705-4e61-8d02-c4105ae96bf0'',
             Notification.Actor = ''u1'', Notification.Object = ''o1'',
             Notification.Target = ''t1'', Notification.Updated = ''2024-01-01''\<rparr>]"
proof -
  let ?n = "sample_notification\<lparr>Notification.ID := UUID_String sample_uuid\<rparr>"
  have "fst (getInbox std_json ''work1''
      [(''work1'' @ ''-'' @ ''draft-'' @ UUID_String sample_uuid, projr (std_Marshal ?n))]) = Inr [?n]"
    using std_Unmarshal_Marshal by (rule getInbox_single_extension)
  then show ?thesis
    by (simp add: createNotification_std UUID_String_sample sample_notification_def)
qed

text \<open>
  Claim C4, amended. For inbox identifiers \<open>A\<close> and \<open>B\<close> where \<open>A\<close> is a strict prefix
  of \<open>B\<close> and the character of \<open>B\<close> that follows \<open>A\<close> is not the separator \<open>-\<close>, and
  for every database: each record \<open>getInbox A\<close> returns is the decoding of an entry
  whose key starts with \<open>A-\<close> and does not start with \<open>B-\<close>, so it is not a key
  that \<open>createNotification\<close> wrote for \<open>B\<close>.
\<close>

theorem getInbox_skips_longer_inbox:
  assumes "strict_prefix A B" and "B ! length A \<noteq> CHR ''-''"
    and "fst (getInbox js A db) = Inr ns"
  shows "list_all2
           (\<lambda>n (k, v). Unmarshal js v = Inr n \<and> prefix (A @ ''-'') k \<and> \<not> prefix (B @ ''-'') k)
           ns (inbox_entries A db)"
proof -
  from assms(3) have "list_all2 (\<lambda>n e. Unmarshal js (snd e) = Inr n) ns (inbox_entries A db)"
    by (rule getInbox_entries)
  then show ?thesis
  proof (rule list.rel_mono_strong)
    fix n e
    assume e: "e \<in> set (inbox_entries A db)" and dec: "Unmarshal js (snd e) = Inr n"
    obtain k v where kv: "e = (k, v)" by (cases e)
    with e have A: "prefix (A @ ''-'') k" by (simp add: inbox_entries_keys)
    with assms(1,2) have "\<not> prefix (B @ ''-'') k" by (rule no_common_extension)
    with A dec kv
    show "case e of (k, v) \<Rightarrow>
        Unmarshal js v = Inr n \<and> prefix (A @ ''-'') k \<and> \<not> prefix (B @ ''-'') k"
      by simp
  qed
qed

text \<open>
  The theorem at \<open>A = work\<close> and \<open>B = work1\<close>, on a database with one notification
  in each of the two inboxes.
\<close>

theorem getInbox_skips_longer_inbox_witness:
  "strict_prefix ''work'' ''work1''
   \<and> ''work1'' ! length ''work'' \<noteq> CHR ''-''
   \<and> map fst (snd (createNotification std_json None sample_uuid ''work'' sample_notification
                     (filled_store 1))) =
       [''work-3f1c2a9b-7705-4e61-8d02-c4105ae96bf0'',
        ''work1-00000000-0000-4000-8000-000000000000'']
   \<and> map fst (inbox_entries ''work''
        (snd (createNotification std_json None sample_uuid ''work'' sample_notification
                (filled_store 1)))) =
       [''work-3f1c2a9b-7705-4e61-8d02-c4105ae96bf0'']
   \<and> list_all2
        (\<lambda>n (k, v). Unmarshal std_json v = Inr n \<and> prefix (''work'' @ ''-'') k
                     \<and> \<not> prefix (''work1'' @ ''-'') k)
        [sample_notification\<lparr>Notification.ID := ''3f1c2a9b-7705-4e61-8d02-c4105ae96bf0''\<rparr>]
        (inbox_entries ''work''
           (snd (createNotification std_json None sample_uuid ''work'' sample_notification
                   (filled_store 1))))"
proof -
  let ?n = "sample_notification\<lparr>Notification.ID := ''3f1c2a9b-7705-4e61-8d02-c4105ae96bf0''\<rparr>"
  let ?db = "snd (createNotification std_json None sample_uuid ''work'' sample_notification
                   (filled_store 1))"
  have db: "?db =
      [(''work-3f1c2a9b-7705-4e61-8d02-c4105ae96bf0'', projr (std_Marshal ?n)),
       (''work1-00000000-0000-4000-8000-000000000000'',
        projr (std_Marshal
          (sample_notification\<lparr>Notification.ID := ''00000000-0000-4000-8000-000000000000''\<rparr>)))]"
    unfolding createNotification_std filled_store_1 UUID_String_sample by simp
  have p: "strict_prefix ''work'' ''work1''" by (simp add: strict_prefix_def)
  have c: "''work1'' ! length ''work'' \<noteq> CHR ''-''" by simp
  have keys: "map fst ?db =
      [''work-3f1c2a9b-7705-4e61-8d02-c4105ae96bf0'',
       ''work1-00000000-0000-4000-8000-000000000000'']"
    unfolding db by simp
  have get: "fst (getInbox std_json ''work'' ?db) = Inr [?n]"
    unfolding db
    by (simp add: getInbox_def db_View_def Seek_def ValidForPrefix_def Let_def
        std_Unmarshal_Marshal)
  have entries: "map fst (inbox_entries ''work'' ?db) =
      [''work-3f1c2a9b-7705-4e61-8d02-c4105ae96bf0'']"
    unfolding db by (simp add: inbox_entries_def Seek_def)
  show ?thesis
    by (intro conjI p c keys entries getInbox_skips_longer_inbox [OF p c get])
qed

text \<open>
  Claim C8, as stated, fails: nothing was ever created in the inbox \<open>work1\<close>, only
  one notification in the inbox \<open>work1-v2\<close>, and the listing of \<open>work1\<close> is not empty.
\<close>

theorem getInbox_unwritten_inbox_counterexample:
  "fst (createNotification std_json None sample_uuid ''work1-v2'' sample_notification []) =
     Inr Notification_zero
   \<and> fst (getInbox std_json ''work1''
            (snd (createNotification std_json None sample_uuid ''work1-v2''
                    sample_notification []))) \<noteq> Inr []"
proof -
  let ?n = "sample_notification\<lparr>Notification.ID := UUID_String sample_uuid\<rparr>"
  have "fst (getInbox std_json ''work1''
      [(''work1'' @ ''-'' @ ''v2-'' @ UUID_String sample_uuid, projr (std_Marshal ?n))]) = Inr [?n]"
    using std_Unmarshal_Marshal by (rule getInbox_single_extension)
  then show ?thesis
    by (simp add: createNotification_std)
qed

text \<open>
  Claim C8, amended. For every inbox identifier and every database in which no key
  starts with the identifier followed by \<open>-\<close> (the empty database among them),
  \<open>getInbox\<close> succeeds with the empty sequence and leaves the database as it was.
\<close>

theorem getInbox_no_matching_key:
  assumes "\<forall>e \<in> set db. \<not> prefix (inboxID @ ''-'') (fst e)"
  shows "getInbox js inboxID db = (Inr [], db)"
proof -
  have "getInbox_loop js (inboxID @ ''-'') (Seek (inboxID @ ''-'') db) [] = Inr []"
  proof (cases "Seek (inboxID @ ''-'') db")
    case Nil
    then show ?thesis by simp
  next
    case (Cons e it)
    then have "e \<in> set db"
      unfolding Seek_def by (metis list.set_intros(1) set_dropWhileD)
    with assms have "\<not> prefix (inboxID @ ''-'') (fst e)" by blast
    with Cons show ?thesis by (cases e) (simp add: ValidForPrefix_def)
  qed
  then show ?thesis by (simp add: getInbox_def db_View_def Let_def)
qed

text \<open>
  The theorem at the inbox \<open>work2\<close>, on a database whose only notification is in
  \<open>work1\<close>, and at the empty database.
\<close>

theorem getInbox_no_matching_key_witness:
  "map fst (filled_store 1) = [''work1-00000000-0000-4000-8000-000000000000'']
   \<and> getInbox std_json ''work2'' (filled_store 1) = (Inr [], filled_store 1)
   \<and> getInbox std_json ''work1'' [] = (Inr [], [])"
proof -
  have keys: "map fst (filled_store 1) = [''work1-00000000-0000-4000-8000-000000000000'']"
    unfolding filled_store_1 by simp
  have none: "\<forall>e \<in> set (filled_store 1). \<not> prefix (''work2'' @ ''-'') (fst e)"
    unfolding filled_store_1 by simp
  have empty: "\<forall>e \<in> set ([] :: store). \<not> prefix (''work1'' @ ''-'') (fst e)"
    by simp
  show ?thesis
    by (intro conjI keys getInbox_no_matching_key [OF none] getInbox_no_matching_key [OF empty])
qed

subsection \<open>The handler of a single notification\<close>

text \<open>
  Claim C9. For every request whose method is not \<open>GET\<close>, \<open>handleNotification\<close>
  writes status 404 and the body \<open>Not Found\<close> and goes on: the lookup is made (and
  succeeds, as it always does) and a second body, the encoded member resource of the
  notification found, is written for the same request.
\<close>

theorem handleNotification_falls_through:
  assumes "Method r \<noteq> ''GET''"
  shows "\<exists>notification.
           fst (getNotification js (map_index (Vars r) ''URN'') (map_index (Vars r) ''ID'') db) =
             Inr notification
           \<and> fst (handleNotification js r db) =
             [WriteHeader 404, Write ''Not Found'',
              Header_Set ''content-type'' ''application/ld+json'',
              Write (EncodeNotification js
                (makeLDNotification
                  (\<lambda>id. ''http://'' @ Host r @ ''/texts/'' @ map_index (Vars r) ''URN'' @
                        ''/inbox/'' @ id)
                  notification))]"
proof -
  obtain notification
    where get: "fst (getNotification js (map_index (Vars r) ''URN'') (map_index (Vars r) ''ID'') db) =
      Inr notification"
    using getNotification_never_fails by blast
  then have "getNotification js (map_index (Vars r) ''URN'') (map_index (Vars r) ''ID'') db =
      (Inr notification, db)"
    using getNotification_store [of js "map_index (Vars r) ''URN''" "map_index (Vars r) ''ID''" db]
    by (simp add: prod_eq_iff)
  with assms have "fst (handleNotification js r db) =
      [WriteHeader 404, Write ''Not Found'',
       Header_Set ''content-type'' ''application/ld+json'',
       Write (EncodeNotification js
         (makeLDNotification
           (\<lambda>id. ''http://'' @ Host r @ ''/texts/'' @ map_index (Vars r) ''URN'' @ ''/inbox/'' @ id)
           notification))]"
    by (simp add: handleNotification_def Let_def)
  with get show ?thesis by blast
qed

text \<open>
  The theorem at a \<open>DELETE\<close> request, on the empty database.
\<close>

theorem handleNotification_falls_through_witness:
  "Method delete_request \<noteq> ''GET''
   \<and> (\<exists>notification.
        fst (getNotification std_json ''work1'' ''3f1c2a9b-7705-4e61-8d02-c4105ae96bf0'' []) =
          Inr notification
        \<and> fst (handleNotification std_json delete_request []) =
          [WriteHeader 404, Write ''Not Found'',
           Header_Set ''content-type'' ''application/ld+json'',
           Write (std_EncodeNotification
             (makeLDNotification (\<lambda>id. ''http://example.org/texts/work1/inbox/'' @ id)
                notification))])"
proof -
  have m: "Method delete_request \<noteq> ''GET''" by (simp add: delete_request_def)
  have r: "Host delete_request = ''example.org''"
    "map_index (Vars delete_request) ''URN'' = ''work1''"
    "map_index (Vars delete_request) ''ID'' = ''3f1c2a9b-7705-4e61-8d02-c4105ae96bf0''"
    by (simp_all add: delete_request_def map_index_def)
  from handleNotification_falls_through [OF m, of std_json "[]"] m show ?thesis
    unfolding r by (simp add: std_json_def)
qed

subsection \<open>What the operations change\<close>

text \<open>
  Claim C10. For every database, \<open>getInbox\<close> and \<open>getNotification\<close> leave it as it
  was, and after \<open>createNotification inboxID n\<close>, failed or not, a lookup of any key
  other than the composite key of \<open>inboxID\<close> and the generated identifier gives what
  it gave before.
\<close>

theorem storage_frame:
  "snd (getInbox js inboxID db) = db
   \<and> snd (getNotification js inboxID notificationID db) = db
   \<and> (\<forall>key. key \<noteq> inboxID @ ''-'' @ UUID_String u \<longrightarrow>
          txn_Get key (snd (createNotification js fault u inboxID n db)) = txn_Get key db)"
proof -
  have "txn_Get key (snd (createNotification js fault u inboxID n db)) = txn_Get key db"
    if "key \<noteq> inboxID @ ''-'' @ UUID_String u" for key
    using that
    by (auto simp add: createNotification_def db_Update_def txn_SetEntry_def Let_def
        txn_Get_store_put split: sum.splits option.splits)
  then show ?thesis by (simp add: getInbox_store getNotification_store)
qed

text \<open>
  The theorem at the key of a notification already stored in the same inbox.
\<close>

theorem storage_frame_witness:
  "snd (getInbox std_json ''work1'' (filled_store 1)) = filled_store 1
   \<and> snd (getNotification std_json ''work1'' ''3f1c2a9b-7705-4e61-8d02-c4105ae96bf0'' (filled_store 1)) =
       filled_store 1
   \<and> ''work1-00000000-0000-4000-8000-000000000000'' \<noteq> ''work1'' @ ''-'' @ UUID_String sample_uuid
   \<and> txn_Get ''work1-00000000-0000-4000-8000-000000000000''
        (snd (createNotification std_json None sample_uuid ''work1'' sample_notification
               (filled_store 1))) =
       txn_Get ''work1-00000000-0000-4000-8000-000000000000'' (filled_store 1)"
proof -
  have ne: "''work1-00000000-0000-4000-8000-000000000000'' \<noteq> ''work1'' @ ''-'' @ UUID_String sample_uuid"
    by (simp add: UUID_String_sample)
  with storage_frame [of std_json "''work1''" "filled_store 1"
      "''3f1c2a9b-7705-4e61-8d02-c4105ae96bf0''" sample_uuid None sample_notification]
  show ?thesis by blast
qed

end
